theory Spec2Isabelle
  imports Main "HOL-Library.AList"
begin

section \<open>JavaScript values\<close>

text \<open>
  Objects are association lists from property names to values.  Timestamps (\<open>iat\<close>,
  \<open>exp\<close>, TTLs, the clock) are whole seconds, modelled as \<open>int\<close>.
\<close>

datatype jv = JNum int | JStr string | JDate int | JObj "(string \<times> jv) list"

type_synonym obj = "(string \<times> jv) list"

text \<open>\<^verbatim>\<open>{ ...base, ...src }\<close>: every property of \<open>src\<close> is assigned onto \<open>base\<close>, in order.\<close>

definition spread :: "obj \<Rightarrow> obj \<Rightarrow> obj" where
  "spread base src = fold (\<lambda>(k, v). AList.update k v) src base"

text \<open>\<^verbatim>\<open>{ ...payload, exp: e, iat: i }\<close>\<close>

definition with_exp_iat :: "obj \<Rightarrow> int \<Rightarrow> int \<Rightarrow> obj" where
  "with_exp_iat payload e i =
     AList.update ''iat'' (JNum i) (AList.update ''exp'' (JNum e) payload)"

text \<open>\<^verbatim>\<open>const { exp, iat, ...rest } = v\<close>: the value of \<open>rest\<close>.\<close>

definition without_exp_iat :: "obj \<Rightarrow> obj" where
  "without_exp_iat v = AList.delete ''iat'' (AList.delete ''exp'' v)"

text \<open>
  Truthiness of an optional string (\<^verbatim>\<open>!x\<close> on a header, body field or cookie):
  \<open>undefined\<close> and the empty string are falsy.
\<close>

fun present :: "string option \<Rightarrow> string option" where
  "present None = None"
| "present (Some s) = (if s = [] then None else Some s)"

section \<open>The cache manager (Session Cache and Blacklist Store)\<close>

record get_result =
  cacheError :: "string option"
  cachedVal :: "obj option"

record set_result =
  set_status :: string
  set_cacheError :: "string option"

text \<open>
  A store keeps, for every key, the value and the instant at which the entry expires.
  \<open>get_fault\<close> and \<open>set_fault\<close> are the backing failures of reads and of writes.
\<close>

record store =
  entries :: "string \<rightharpoonup> (obj \<times> int)"
  get_fault :: "string option"
  set_fault :: "string option"

text \<open>
  Modelled from the spec: \<^verbatim>\<open>RedisCacheManager.getKey\<close> (\<^verbatim>\<open>./utils/RedisCacheManager\<close> is
  not among the sources).  \<open>get(key) -> value | absent\<close>; a backing failure is a distinct
  error; an entry cached with TTL \<open>T\<close> is no longer retrievable after \<open>T\<close> seconds.
\<close>

definition getKey :: "store \<Rightarrow> int \<Rightarrow> string \<Rightarrow> get_result" where
  "getKey s now k =
     (case get_fault s of
        Some e \<Rightarrow> \<lparr>cacheError = Some e, cachedVal = None\<rparr>
      | None \<Rightarrow>
          (case entries s k of
             None \<Rightarrow> \<lparr>cacheError = None, cachedVal = None\<rparr>
           | Some (v, expires_at) \<Rightarrow>
               if now < expires_at then \<lparr>cacheError = None, cachedVal = Some v\<rparr>
               else \<lparr>cacheError = None, cachedVal = None\<rparr>))"

text \<open>
  Modelled from the spec: \<^verbatim>\<open>RedisCacheManager.setKey\<close>.
  \<open>set(key, value, ttl_seconds) -> ok | error\<close>; \<open>set\<close> with \<open>ttl_seconds \<le> 0\<close> is rejected.
\<close>

definition setKey :: "store \<Rightarrow> int \<Rightarrow> string \<Rightarrow> obj \<Rightarrow> int \<Rightarrow> set_result \<times> store" where
  "setKey s now k v ttl =
     (case set_fault s of
        Some e \<Rightarrow> (\<lparr>set_status = ''ERROR'', set_cacheError = Some e\<rparr>, s)
      | None \<Rightarrow>
          if ttl \<le> 0 then (\<lparr>set_status = ''ERROR'', set_cacheError = Some ''INVALID TTL''\<rparr>, s)
          else (\<lparr>set_status = ''OK'', set_cacheError = None\<rparr>,
                s\<lparr>entries := (entries s)(k \<mapsto> (v, now + ttl))\<rparr>))"

text \<open>Modelled from the spec: \<^verbatim>\<open>RedisCacheManager.deleteKey\<close>.  \<open>delete(key) -> ok\<close>.\<close>

definition deleteKey :: "store \<Rightarrow> string \<Rightarrow> store" where
  "deleteKey s k = s\<lparr>entries := (entries s)(k := None)\<rparr>"

section \<open>Users, tokens and the token ledger\<close>

record UserRecord =
  user_id :: string
  email :: string
  password :: string
  access_level :: string
  email_confirmed :: bool

record token_data =
  td_token :: string
  td_payload :: obj
  td_exp :: int
  td_iat :: int
  td_expDate :: int

record token_pair =
  accessToken :: token_data
  refreshToken :: token_data

text \<open>A document of the \<^verbatim>\<open>TokenStore\<close> collection.\<close>

record TokenStoreRecord =
  ts_user_id :: string
  ts_access_token :: string
  ts_refresh_token :: string
  ts_access_token_exp_date :: int
  ts_refresh_token_exp_date :: int
  ts_requester_data :: obj

record request =
  req_token :: "string option"
  req_email :: "string option"
  req_password :: "string option"
  req_refresh_cookie :: "string option"
  req_requester_data :: obj

text \<open>Everything the handlers share between requests.\<close>

record world =
  tokenCache :: store
  tokenBlacklistCache :: store
  TokenStore :: "TokenStoreRecord list"
  find_fault :: "string option"
  create_fault :: "string option"

text \<open>
  Modelled from the spec: \<^verbatim>\<open>TokenStore.findOne({ access_token, refresh_token })\<close> of the
  model in \<^verbatim>\<open>./db/models\<close>.  The lookup matches both fields exactly; a failure of the
  database is thrown.
\<close>

definition TokenStore_findOne :: "world \<Rightarrow> string \<Rightarrow> string \<Rightarrow> string + TokenStoreRecord option" where
  "TokenStore_findOne w a r =
     (case find_fault w of
        Some e \<Rightarrow> Inl e
      | None \<Rightarrow> Inr (find (\<lambda>d. ts_access_token d = a \<and> ts_refresh_token d = r) (TokenStore w)))"

text \<open>
  Modelled from the spec: \<^verbatim>\<open>TokenStore.create\<close>, append-only.  The argument object is built
  inside the \<^verbatim>\<open>try\<close> block, so reading \<^verbatim>\<open>user._id\<close> of a null user is caught there too.
\<close>

definition TokenStore_create ::
  "world \<Rightarrow> UserRecord option \<Rightarrow> token_data \<Rightarrow> token_data \<Rightarrow> obj \<Rightarrow> string + world" where
  "TokenStore_create w user a r requester =
     (case user of
        None \<Rightarrow> Inl ''TypeError''
      | Some u \<Rightarrow>
          (case create_fault w of
             Some e \<Rightarrow> Inl e
           | None \<Rightarrow>
               Inr (w\<lparr>TokenStore := TokenStore w @
                      [\<lparr>ts_user_id = user_id u,
                        ts_access_token = td_token a,
                        ts_refresh_token = td_token r,
                        ts_access_token_exp_date = td_expDate a,
                        ts_refresh_token_exp_date = td_expDate r,
                        ts_requester_data = requester\<rparr>]\<rparr>)))"

section \<open>Responses and the calls a handler makes\<close>

datatype body =
    ErrorCode string
  | ErrorCodeData string string
  | Payload obj
  | Text string

record response =
  res_status :: nat
  res_body :: body

datatype cookie_action = ClearCookie | SetCookie string int

datatype call =
    BlacklistGet string
  | BlacklistSet string obj int
  | CacheGet string
  | CacheSet string obj int
  | CacheDelete string
  | JwtVerify string
  | ValidateRefreshTokenCookie string
  | TokenStoreFindOne string string
  | TokenStoreCreate
  | FetchUserByEmail string
  | FetchUserById string
  | VerifyUserPassword
  | GenerateUserTokens

text \<open>
  What one request leaves behind: the response sent (if any), the cookie operations on
  it, the calls to the stores and helpers in the order they were made, the world after
  the request, and an exception nobody caught.
\<close>

record outcome =
  sent :: "response option"
  cookies :: "cookie_action list"
  calls :: "call list"
  final :: world
  uncaught :: "string option"

definition respond :: "nat \<Rightarrow> body \<Rightarrow> cookie_action list \<Rightarrow> call list \<Rightarrow> world \<Rightarrow> outcome" where
  "respond st b cs tr w =
     \<lparr>sent = Some \<lparr>res_status = st, res_body = b\<rparr>, cookies = cs, calls = tr, final = w,
      uncaught = None\<rparr>"

section \<open>Helpers that are parameters of the handlers\<close>

record fetch_error =
  fe_data :: string
  fe_status :: nat
  fe_error_code :: string

record fetch_result =
  fr_user :: "UserRecord option"
  fr_error :: "fetch_error option"

record linkage_error =
  le_error :: string
  le_status :: nat
  le_code :: string

text \<open>The decoded payload of a verified token: its claims together with \<open>exp\<close> and \<open>iat\<close>.\<close>

record decoded =
  d_claims :: obj
  d_exp :: int
  d_iat :: int

definition decoded_obj :: "decoded \<Rightarrow> obj" where
  "decoded_obj d = with_exp_iat (d_claims d) (d_exp d) (d_iat d)"

datatype verify_result = VerifyError string | Decoded decoded

text \<open>
  The helper modules (\<^verbatim>\<open>./utils/user\<close>, \<^verbatim>\<open>./utils/tokens\<close>, \<^verbatim>\<open>./utils/cookie\<close>) and
  \<^verbatim>\<open>jsonwebtoken\<close> are not among the sources; the handlers take them as parameters.
  The user lookups are handed the token cache and return it; the cookie check is handed
  the request and response and may touch the ledger; \<^verbatim>\<open>generateUserTokens\<close> and
  \<^verbatim>\<open>jwt.verify\<close> read the clock.
\<close>

record env =
  fetchUserByEmail :: "string \<Rightarrow> store \<Rightarrow> fetch_result \<times> store"
  fetchUserById :: "string \<Rightarrow> store \<Rightarrow> fetch_result \<times> store"
  verifyUserPassword :: "string \<Rightarrow> string \<Rightarrow> bool"
  generateUserTokens :: "UserRecord option \<Rightarrow> int \<Rightarrow> int \<Rightarrow> int \<Rightarrow> string + token_pair"
  jwt_verify :: "string \<Rightarrow> int \<Rightarrow> verify_result"
  validateRefreshTokenCookie ::
    "request \<Rightarrow> string \<Rightarrow> world \<Rightarrow> linkage_error option \<times> cookie_action list \<times> world"

section \<open>The route handlers\<close>

subsection \<open>Issuing a token pair (the common tail of \<^verbatim>\<open>/sign-in\<close> and \<^verbatim>\<open>/refresh\<close>)\<close>

text \<open>
  Lines 85 to 159 of \<^verbatim>\<open>/sign-in\<close> and lines 355 to 417 of \<^verbatim>\<open>/refresh\<close> are the same
  code: generate the pair (access token one hour, refresh token one week), record it in
  the ledger, cache the access token's payload with \<open>exp\<close> and \<open>iat\<close> for \<open>exp - iat\<close>
  seconds, set the refresh cookie and send the access token with its payload.
  \<open>tr\<close> is the list of calls made before.
\<close>

definition issue_tokens ::
  "env \<Rightarrow> world \<Rightarrow> int \<Rightarrow> request \<Rightarrow> UserRecord option \<Rightarrow> call list \<Rightarrow> outcome" where
  "issue_tokens E w now req user tr =
     (case generateUserTokens E user (60 * 60) (60 * 60 * 24 * 7) now of
        Inl e \<Rightarrow>
          \<lparr>sent = None, cookies = [], calls = tr @ [GenerateUserTokens], final = w,
           uncaught = Some e\<rparr>
      | Inr pair \<Rightarrow>
          (case TokenStore_create w user (accessToken pair) (refreshToken pair)
                  (req_requester_data req) of
             Inl e \<Rightarrow>
               respond 500 (ErrorCode ''PROBLEM STORING CREDENTIALS'') []
                 (tr @ [GenerateUserTokens, TokenStoreCreate]) w
           | Inr w1 \<Rightarrow>
               (let a = accessToken pair;
                    v = with_exp_iat (td_payload a) (td_exp a) (td_iat a);
                    ttl = td_exp a - td_iat a;
                    (r, c) = setKey (tokenCache w1) now (td_token a) v ttl;
                    w2 = w1\<lparr>tokenCache := c\<rparr>;
                    tr2 = tr @ [GenerateUserTokens, TokenStoreCreate, CacheSet (td_token a) v ttl]
                in if set_status r \<noteq> ''OK'' \<or> set_cacheError r \<noteq> None then
                     respond 500 (ErrorCode ''PROBLEM STORING CREDENTIALS'') [] tr2 w2
                   else
                     respond 200
                       (Payload (spread [(''access_token'', JStr (td_token a))] (td_payload a)))
                       [SetCookie (td_token (refreshToken pair)) (td_expDate (refreshToken pair))]
                       tr2 w2)))"

subsection \<open>\<^verbatim>\<open>POST /sign-in\<close>\<close>

definition sign_in :: "env \<Rightarrow> world \<Rightarrow> int \<Rightarrow> request \<Rightarrow> outcome" where
  "sign_in E w now req =
     (case present (req_email req) of
        None \<Rightarrow> respond 400 (ErrorCode ''MISSING EMAIL OR PASSWORD'') [] [] w
      | Some em \<Rightarrow>
     (case present (req_password req) of
        None \<Rightarrow> respond 400 (ErrorCode ''MISSING EMAIL OR PASSWORD'') [] [] w
      | Some pw \<Rightarrow>
     (let (fr, c) = fetchUserByEmail E em (tokenCache w);
          w1 = w\<lparr>tokenCache := c\<rparr>;
          tr1 = [FetchUserByEmail em]
      in case fr_error fr of
           Some err \<Rightarrow>
             respond (fe_status err) (ErrorCodeData (fe_error_code err) (fe_data err)) [] tr1 w1
         | None \<Rightarrow>
             (case fr_user fr of
                None \<Rightarrow>
                  respond 401 (ErrorCode ''EMAIL/PASSWORD COMBINATION NOT RECOGNIZED'') [] tr1 w1
              | Some user \<Rightarrow>
                  if \<not> verifyUserPassword E pw (password user) then
                    respond 401 (ErrorCode ''EMAIL/PASSWORD COMBINATION NOT RECOGNIZED'') []
                      (tr1 @ [VerifyUserPassword]) w1
                  else
                    issue_tokens E w1 now req (Some user) (tr1 @ [VerifyUserPassword])))))"

subsection \<open>\<^verbatim>\<open>GET /authorize\<close>\<close>

text \<open>
  The callback of \<^verbatim>\<open>jwt.verify\<close> (lines 239 to 283), reached when the token is not in the
  cache.
\<close>

definition authorize_verify :: "env \<Rightarrow> world \<Rightarrow> int \<Rightarrow> request \<Rightarrow> string \<Rightarrow> call list \<Rightarrow> outcome" where
  "authorize_verify E w now req access_token tr =
     (case jwt_verify E access_token now of
        VerifyError name \<Rightarrow>
          if name = ''TokenExpiredError'' then
            respond 401 (ErrorCode ''TOKEN EXPIRED'') [] (tr @ [JwtVerify access_token]) w
          else
            respond 401 (ErrorCode ''TOKEN INVALID'') [ClearCookie] (tr @ [JwtVerify access_token]) w
      | Decoded decodedAccessToken \<Rightarrow>
          (let (err, cs, w1) = validateRefreshTokenCookie E req access_token w;
               tr1 = tr @ [JwtVerify access_token, ValidateRefreshTokenCookie access_token]
           in case err of
                Some e \<Rightarrow> respond (le_status e) (ErrorCode (le_code e)) cs tr1 w1
              | None \<Rightarrow>
                  (let v = decoded_obj decodedAccessToken;
                       ttl = d_exp decodedAccessToken - d_iat decodedAccessToken;
                       (r, c) = setKey (tokenCache w1) now access_token v ttl;
                       w2 = w1\<lparr>tokenCache := c\<rparr>;
                       tr2 = tr1 @ [CacheSet access_token v ttl]
                   in if set_status r \<noteq> ''OK'' \<or> set_cacheError r \<noteq> None then
                        respond 500 (ErrorCode ''PROBLEM STORING CREDENTIALS'') cs tr2 w2
                      else
                        respond 200 (Payload (without_exp_iat v)) cs tr2 w2)))"

text \<open>
  \<^verbatim>\<open>tokenCache.deleteKey\<close> is started and not awaited; the model lets it complete
  within the request.
\<close>

definition authorize :: "env \<Rightarrow> world \<Rightarrow> int \<Rightarrow> request \<Rightarrow> outcome" where
  "authorize E w now req =
     (case present (req_token req) of
        None \<Rightarrow> respond 400 (ErrorCode ''MISSING AUTHORIZATION BEARER TOKEN'') [] [] w
      | Some access_token \<Rightarrow>
     (let bl = getKey (tokenBlacklistCache w) now access_token;
          tr1 = [BlacklistGet access_token]
      in if cacheError bl \<noteq> None then
           respond 500 (ErrorCode ''PROBLEM CHECKING BLACKLIST CACHE'') [] tr1 w
         else if cachedVal bl \<noteq> None then
           respond 401 (ErrorCode ''TOKEN INVALID'') [ClearCookie] tr1 w
         else
     (let g = getKey (tokenCache w) now access_token;
          tr2 = tr1 @ [CacheGet access_token]
      in case cachedVal g of
           Some v \<Rightarrow>
             if take 3 access_token = ''SYS'' then
               respond 200 (Payload (without_exp_iat v)) [] (tr2 @ [CacheDelete access_token])
                 (w\<lparr>tokenCache := deleteKey (tokenCache w) access_token\<rparr>)
             else
               (let (err, cs, w1) = validateRefreshTokenCookie E req access_token w;
                    tr3 = tr2 @ [ValidateRefreshTokenCookie access_token]
                in case err of
                     Some e \<Rightarrow> respond (le_status e) (ErrorCode (le_code e)) cs tr3 w1
                   | None \<Rightarrow> respond 200 (Payload (without_exp_iat v)) cs tr3 w1)
         | None \<Rightarrow>
             if cacheError g \<noteq> None then
               respond 500 (ErrorCode ''PROBLEM READING CACHE'') [] tr2 w
             else authorize_verify E w now req access_token tr2)))"

subsection \<open>\<^verbatim>\<open>GET /refresh\<close>\<close>

definition refresh :: "env \<Rightarrow> world \<Rightarrow> int \<Rightarrow> request \<Rightarrow> outcome" where
  "refresh E w now req =
     (case present (req_token req) of
        None \<Rightarrow> respond 400 (ErrorCode ''MISSING AUTHORIZATION BEARER TOKEN'') [] [] w
      | Some access_token \<Rightarrow>
     (let bl = getKey (tokenBlacklistCache w) now access_token;
          tr1 = [BlacklistGet access_token]
      in if cacheError bl \<noteq> None then
           respond 500 (ErrorCode ''PROBLEM CHECKING BLACKLIST CACHE'') [] tr1 w
         else if cachedVal bl \<noteq> None then
           respond 401 (ErrorCode ''TOKEN INVALID'') [ClearCookie] tr1 w
         else
     (case present (req_refresh_cookie req) of
        None \<Rightarrow> respond 401 (ErrorCode ''REFRESH TOKEN INVALID'') [] tr1 w
      | Some refresh_token \<Rightarrow>
     (let tr2 = tr1 @ [TokenStoreFindOne access_token refresh_token]
      in case TokenStore_findOne w access_token refresh_token of
           Inl e \<Rightarrow> respond 500 (ErrorCode ''PROBLEM RETRIEVING TOKEN RECORD'') [] tr2 w
         | Inr None \<Rightarrow>
             respond 401 (ErrorCode ''NO RECORD OF CURRENT TOKEN PAIRING EXISTS'') [ClearCookie] tr2 w
         | Inr (Some tokenStore) \<Rightarrow>
             (let (fr, c) = fetchUserById E (ts_user_id tokenStore) (tokenCache w);
                  w1 = w\<lparr>tokenCache := c\<rparr>;
                  tr3 = tr2 @ [FetchUserById (ts_user_id tokenStore)]
              in case fr_error fr of
                   Some err \<Rightarrow> respond (fe_status err) (ErrorCode (fe_error_code err)) [] tr3 w1
                 | None \<Rightarrow> issue_tokens E w1 now req (fr_user fr) tr3)))))"

subsection \<open>\<^verbatim>\<open>GET /sign-out\<close>\<close>

text \<open>
  When the blacklist write fails the handler evaluates \<^verbatim>\<open>res.send(500)({ error_code })\<close>:
  under Express 4 \<^verbatim>\<open>res.send(500)\<close> sends status 500 with the status text, and calling
  its result raises a \<open>TypeError\<close> inside the callback.
\<close>

definition sign_out :: "env \<Rightarrow> world \<Rightarrow> int \<Rightarrow> request \<Rightarrow> outcome" where
  "sign_out E w now req =
     (case present (req_token req) of
        None \<Rightarrow> respond 400 (ErrorCode ''MISSING AUTHORIZATION BEARER TOKEN'') [] [] w
      | Some access_token \<Rightarrow>
     (let bl = getKey (tokenBlacklistCache w) now access_token;
          tr1 = [BlacklistGet access_token]
      in if cachedVal bl \<noteq> None then
           respond 400 (ErrorCode ''TOKEN ALREADY BLACKLISTED'') [] tr1 w
         else
     (let tr2 = tr1 @ [JwtVerify access_token]
      in case jwt_verify E access_token now of
           VerifyError name \<Rightarrow> respond 400 (ErrorCode ''TOKEN ALREADY INVALID'') [] tr2 w
         | Decoded decodedToken \<Rightarrow>
             (let v = [(''created_at'', JDate now)];
                  ttl = d_exp decodedToken - d_iat decodedToken;
                  (r, b) = setKey (tokenBlacklistCache w) now access_token v ttl;
                  w1 = w\<lparr>tokenBlacklistCache := b\<rparr>;
                  tr3 = tr2 @ [BlacklistSet access_token v ttl]
              in if set_status r \<noteq> ''OK'' \<or> set_cacheError r \<noteq> None then
                   \<lparr>sent = Some \<lparr>res_status = 500, res_body = Text ''Internal Server Error''\<rparr>,
                    cookies = [], calls = tr3, final = w1, uncaught = Some ''TypeError''\<rparr>
                 else respond 200 (Text ''SUCCESS'') [] tr3 w1))))"

section \<open>\<^verbatim>\<open>AuthorizeController.executeImpl\<close>\<close>

text \<open>
  The controller answers through the methods of \<^verbatim>\<open>BaseController\<close> and reads the
  blacklist and the cache through \<^verbatim>\<open>TokenBlacklist\<close> and \<^verbatim>\<open>AuthTokenCache\<close>; none of
  the three is among the sources.  A reply is the method called; the two utilities are
  parameters whose promises resolve (\<open>Inr\<close>) or reject (\<open>Inl\<close>).
\<close>

datatype controller_reply = MissingAuthorizationToken | InvalidToken | ExpiredToken | Ok obj

datatype controller_call =
    IsBlacklisted string
  | GetCachedPayload string
  | Verify string
  | CacheToken string obj int

record controller_env =
  isBlacklisted :: "string \<Rightarrow> string + bool"
  getCachedPayload :: "string \<Rightarrow> string + obj option"
  cacheToken :: "string \<Rightarrow> obj \<Rightarrow> int \<Rightarrow> string option"
  JWT_SECRET_KEY :: "string option"
  verify :: "string \<Rightarrow> int \<Rightarrow> verify_result"

record controller_outcome =
  reply :: "controller_reply option"
  thrown :: "string option"
  steps :: "controller_call list"

definition executeImpl :: "controller_env \<Rightarrow> int \<Rightarrow> request \<Rightarrow> controller_outcome" where
  "executeImpl C now req =
     (case present (req_token req) of
        None \<Rightarrow> \<lparr>reply = Some MissingAuthorizationToken, thrown = None, steps = []\<rparr>
      | Some access_token \<Rightarrow>
     (case isBlacklisted C access_token of
        Inl e \<Rightarrow> \<lparr>reply = None, thrown = Some e, steps = [IsBlacklisted access_token]\<rparr>
      | Inr True \<Rightarrow>
          \<lparr>reply = Some InvalidToken, thrown = None, steps = [IsBlacklisted access_token]\<rparr>
      | Inr False \<Rightarrow>
     (let tr2 = [IsBlacklisted access_token, GetCachedPayload access_token]
      in case getCachedPayload C access_token of
           Inl e \<Rightarrow> \<lparr>reply = None, thrown = Some e, steps = tr2\<rparr>
         | Inr (Some cachedPayload) \<Rightarrow> \<lparr>reply = Some (Ok cachedPayload), thrown = None, steps = tr2\<rparr>
         | Inr None \<Rightarrow>
     (case JWT_SECRET_KEY C of
        None \<Rightarrow> \<lparr>reply = None, thrown = Some ''Invalid JWT Secret Key'', steps = tr2\<rparr>
      | Some secret \<Rightarrow>
     (let tr3 = tr2 @ [Verify access_token]
      in case verify C access_token now of
           VerifyError name \<Rightarrow>
             if name = ''TokenExpiredError'' then
               \<lparr>reply = Some ExpiredToken, thrown = None, steps = tr3\<rparr>
             else \<lparr>reply = Some InvalidToken, thrown = None, steps = tr3\<rparr>
         | Decoded decodedPayload \<Rightarrow>
             (let payload = without_exp_iat (decoded_obj decodedPayload);
                  ttl = d_exp decodedPayload - d_iat decodedPayload;
                  tr4 = tr3 @ [CacheToken access_token payload ttl]
              in case cacheToken C access_token payload ttl of
                   Some e \<Rightarrow> \<lparr>reply = None, thrown = Some e, steps = tr4\<rparr>
                 | None \<Rightarrow> \<lparr>reply = Some (Ok payload), thrown = None, steps = tr4\<rparr>))))))"

section \<open>The \<^verbatim>\<open>User\<close> class\<close>

text \<open>The private field \<^verbatim>\<open>_user\<close>; \<open>null\<close> is \<open>None\<close>.\<close>

record User =
  u_user :: "UserRecord option"

definition User_new :: User where
  "User_new = \<lparr>u_user = None\<rparr>"

definition exists :: "User \<Rightarrow> bool" where
  "exists u = (u_user u \<noteq> None)"

text \<open>
  \<^verbatim>\<open>fetchUserByEmail\<close> and \<^verbatim>\<open>fetchUserById\<close> of \<^verbatim>\<open>./users\<close>, \<^verbatim>\<open>isPasswordValid\<close> and
  \<^verbatim>\<open>createUserTokenData\<close> are parameters.
\<close>

definition initByEmail :: "(string \<Rightarrow> UserRecord option) \<Rightarrow> string \<Rightarrow> User \<Rightarrow> User" where
  "initByEmail fetch em u = u\<lparr>u_user := fetch em\<rparr>"

definition initByID :: "(string \<Rightarrow> UserRecord option) \<Rightarrow> string \<Rightarrow> User \<Rightarrow> User" where
  "initByID fetch i u = u\<lparr>u_user := fetch i\<rparr>"

definition hasPassword :: "(string \<Rightarrow> string \<Rightarrow> bool) \<Rightarrow> User \<Rightarrow> string \<Rightarrow> string + bool" where
  "hasPassword isPasswordValid u pw =
     (if \<not> exists u then Inl ''NO USER INITIALIZED''
      else case u_user u of
             None \<Rightarrow> Inl ''TypeError''
           | Some r \<Rightarrow> Inr (isPasswordValid (password r) pw))"

definition confirmedEmail :: "User \<Rightarrow> string + bool" where
  "confirmedEmail u =
     (if \<not> exists u then Inl ''NO USER INITIALIZED''
      else case u_user u of
             None \<Rightarrow> Inl ''TypeError''
           | Some r \<Rightarrow> Inr (email_confirmed r))"

definition getFields :: "User \<Rightarrow> string + UserRecord option" where
  "getFields u = (if \<not> exists u then Inl ''NO USER INITIALIZED'' else Inr (u_user u))"

definition initUserTokens :: "(UserRecord option \<Rightarrow> 'p) \<Rightarrow> User \<Rightarrow> string + 'p" where
  "initUserTokens createUserTokenData u =
     (if \<not> exists u then Inl ''NO USER INITIALIZED'' else Inr (createUserTokenData (u_user u)))"

section \<open>Example data\<close>

text \<open>
  A user, the access token \<open>eyJ.access\<close> issued for that user at instant 0 for one hour,
  helpers that recognise exactly these, and stores and worlds built from entry lists.
\<close>

definition ex_claims :: obj where
  "ex_claims =
     [(''access_type'', JStr ''USER''),
      (''authenticated_user'', JObj [(''access_level'', JStr ''ADMIN''), (''_id'', JStr ''u1'')])]"

definition ex_system_claims :: obj where
  "ex_system_claims = [(''access_type'', JStr ''SYSTEM''), (''exp'', JNum 3600), (''iat'', JNum 0)]"

definition ex_user :: UserRecord where
  "ex_user =
     \<lparr>user_id = ''u1'', email = ''a@x.com'', password = ''hash:p1'', access_level = ''ADMIN'',
      email_confirmed = True\<rparr>"

definition ex_decoded :: decoded where
  "ex_decoded = \<lparr>d_claims = ex_claims, d_exp = 3600, d_iat = 0\<rparr>"

definition ex_pair :: "int \<Rightarrow> int \<Rightarrow> int \<Rightarrow> token_pair" where
  "ex_pair a r now =
     \<lparr>accessToken =
        \<lparr>td_token = ''eyJ.access'', td_payload = ex_claims, td_exp = now + a, td_iat = now,
         td_expDate = now + a\<rparr>,
      refreshToken =
        \<lparr>td_token = ''eyJ.refresh'', td_payload = [], td_exp = now + r, td_iat = now,
         td_expDate = now + r\<rparr>\<rparr>"

definition ex_fetch :: "string \<Rightarrow> string \<Rightarrow> store \<Rightarrow> fetch_result \<times> store" where
  "ex_fetch known k c =
     (\<lparr>fr_user = (if k = known then Some ex_user else None), fr_error = None\<rparr>, c)"

definition ex_generate :: "UserRecord option \<Rightarrow> int \<Rightarrow> int \<Rightarrow> int \<Rightarrow> string + token_pair" where
  "ex_generate u a r now = (case u of None \<Rightarrow> Inl ''TypeError'' | Some x \<Rightarrow> Inr (ex_pair a r now))"

definition ex_verify :: "string \<Rightarrow> int \<Rightarrow> verify_result" where
  "ex_verify t now =
     (if t = ''eyJ.access'' then
        (if now < 3600 then Decoded ex_decoded else VerifyError ''TokenExpiredError'')
      else VerifyError ''JsonWebTokenError'')"

definition ex_validate ::
  "request \<Rightarrow> string \<Rightarrow> world \<Rightarrow> linkage_error option \<times> cookie_action list \<times> world" where
  "ex_validate req t w = (None, [], w)"

definition ex_hash_matches :: "string \<Rightarrow> string \<Rightarrow> bool" where
  "ex_hash_matches pw h = (h = ''hash:'' @ pw)"

definition ex_env :: env where
  "ex_env =
     \<lparr>fetchUserByEmail = ex_fetch ''a@x.com'',
      fetchUserById = ex_fetch ''u1'',
      verifyUserPassword = ex_hash_matches,
      generateUserTokens = ex_generate,
      jwt_verify = ex_verify,
      validateRefreshTokenCookie = ex_validate\<rparr>"

definition ex_store :: "(string \<times> obj \<times> int) list \<Rightarrow> store" where
  "ex_store kvs = \<lparr>entries = map_of kvs, get_fault = None, set_fault = None\<rparr>"

definition ex_world :: "store \<Rightarrow> store \<Rightarrow> world" where
  "ex_world c b =
     \<lparr>tokenCache = c, tokenBlacklistCache = b, TokenStore = [], find_fault = None,
      create_fault = None\<rparr>"

definition ex_request :: "string option \<Rightarrow> string option \<Rightarrow> request" where
  "ex_request t c =
     \<lparr>req_token = t, req_email = None, req_password = None, req_refresh_cookie = c,
      req_requester_data = []\<rparr>"

definition ex_credentials :: "string \<Rightarrow> string \<Rightarrow> request" where
  "ex_credentials em pw =
     \<lparr>req_token = None, req_email = Some em, req_password = Some pw, req_refresh_cookie = None,
      req_requester_data = []\<rparr>"

definition ex_create :: "UserRecord option \<Rightarrow> token_pair" where
  "ex_create r = ex_pair 3600 604800 0"

definition ex_controller :: controller_env where
  "ex_controller =
     \<lparr>isBlacklisted = (\<lambda>t. Inr False),
      getCachedPayload = (\<lambda>t. Inr None),
      cacheToken = (\<lambda>t p ttl. None),
      JWT_SECRET_KEY = Some ''secret'',
      verify = ex_verify\<rparr>"

section \<open>Basic facts about responses, stores and call lists\<close>

lemma respond_sel:
  "sent (respond st b cs tr w) = Some \<lparr>res_status = st, res_body = b\<rparr>"
  "cookies (respond st b cs tr w) = cs"
  "calls (respond st b cs tr w) = tr"
  "final (respond st b cs tr w) = w"
  "uncaught (respond st b cs tr w) = None"
  by (simp_all add: respond_def)

lemmas ex_defs =
  ex_claims_def ex_system_claims_def ex_user_def ex_decoded_def ex_pair_def ex_fetch_def
  ex_generate_def ex_verify_def ex_validate_def ex_hash_matches_def ex_env_def ex_store_def
  ex_world_def ex_request_def ex_credentials_def ex_controller_def

lemmas handler_defs =
  authorize_def authorize_verify_def refresh_def sign_in_def sign_out_def issue_tokens_def
  TokenStore_create_def TokenStore_findOne_def getKey_def setKey_def deleteKey_def
  decoded_obj_def with_exp_iat_def without_exp_iat_def spread_def respond_def Let_def

lemma setKey_cases:
  "setKey s now k v ttl = (r, c) \<Longrightarrow>
     (set_status r = ''OK'' \<and> set_cacheError r = None \<and>
      c = s\<lparr>entries := (entries s)(k \<mapsto> (v, now + ttl))\<rparr>) \<or>
     (set_status r \<noteq> ''OK'' \<and> c = s)"
  by (auto simp: setKey_def split: option.splits if_splits)

lemma getKey_live:
  "entries s k = Some (v, e) \<Longrightarrow> get_fault s = None \<Longrightarrow>
     cachedVal (getKey s t k) = (if t < e then Some v else None)"
  by (simp add: getKey_def)

lemma getKey_expired:
  "entries s k = Some (v, e) \<Longrightarrow> e \<le> t \<Longrightarrow> cachedVal (getKey s t k) = None"
  by (simp add: getKey_def split: option.splits)

lemma getKey_deleted: "cachedVal (getKey (deleteKey s k) t k) = None"
  by (simp add: getKey_def deleteKey_def split: option.splits)

lemma getKey_fault_no_value: "cacheError (getKey s t k) \<noteq> None \<Longrightarrow> cachedVal (getKey s t k) = None"
  by (simp add: getKey_def split: option.splits prod.splits if_splits)

lemma issue_tokens_calls_Cons:
  "calls (issue_tokens E w now req u (x # tr)) = x # calls (issue_tokens E w now req u tr)"
  by (simp add: issue_tokens_def Let_def respond_sel split: sum.splits prod.splits)

lemma authorize_verify_calls_Cons:
  "calls (authorize_verify E w now req t (x # tr)) =
     x # calls (authorize_verify E w now req t tr)"
  by (simp add: authorize_verify_def Let_def respond_sel
      split: verify_result.splits prod.splits option.splits)

lemma authorize_first_call:
  assumes "present (req_token req) = Some t"
  shows "\<exists>rest. calls (authorize E w now req) = BlacklistGet t # rest"
  using assms
  by (simp add: authorize_def Let_def respond_sel authorize_verify_calls_Cons
      split: option.splits prod.splits)

lemma refresh_first_call:
  assumes "present (req_token req) = Some t"
  shows "\<exists>rest. calls (refresh E w now req) = BlacklistGet t # rest"
  using assms
  by (simp add: refresh_def Let_def respond_sel issue_tokens_calls_Cons
      split: option.splits prod.splits sum.splits)

section \<open>Blacklisted tokens\<close>

text \<open>
  C1.  In \<^verbatim>\<open>/authorize\<close> and in \<^verbatim>\<open>/refresh\<close> the first call of a request that carries a
  token is the blacklist lookup, so it precedes the cache lookup and the signature
  verification.  When that lookup returns an entry, both handlers answer 401
  \<open>TOKEN INVALID\<close> and make no other call, whatever the session cache holds and whatever
  signature verification would say.
\<close>

theorem blacklisted_token_rejected_first:
  assumes "present (req_token req) = Some t"
  shows "(\<exists>rest. calls (authorize E w now req) = BlacklistGet t # rest) \<and>
         (\<exists>rest. calls (refresh E w now req) = BlacklistGet t # rest) \<and>
         (cacheError (getKey (tokenBlacklistCache w) now t) = None \<and>
          cachedVal (getKey (tokenBlacklistCache w) now t) \<noteq> None \<longrightarrow>
            sent (authorize E w now req) =
              Some \<lparr>res_status = 401, res_body = ErrorCode ''TOKEN INVALID''\<rparr> \<and>
            calls (authorize E w now req) = [BlacklistGet t] \<and>
            sent (refresh E w now req) =
              Some \<lparr>res_status = 401, res_body = ErrorCode ''TOKEN INVALID''\<rparr> \<and>
            calls (refresh E w now req) = [BlacklistGet t])"
proof -
  have "cacheError (getKey (tokenBlacklistCache w) now t) = None \<and>
        cachedVal (getKey (tokenBlacklistCache w) now t) \<noteq> None \<longrightarrow>
          sent (authorize E w now req) =
            Some \<lparr>res_status = 401, res_body = ErrorCode ''TOKEN INVALID''\<rparr> \<and>
          calls (authorize E w now req) = [BlacklistGet t] \<and>
          sent (refresh E w now req) =
            Some \<lparr>res_status = 401, res_body = ErrorCode ''TOKEN INVALID''\<rparr> \<and>
          calls (refresh E w now req) = [BlacklistGet t]"
    using assms by (simp add: authorize_def refresh_def Let_def respond_sel)
  with authorize_first_call [OF assms] refresh_first_call [OF assms] show ?thesis
    by blast
qed

text \<open>
  The token \<open>eyJ.access\<close> is blacklisted until 3610, still cached and still valid at 100.
\<close>

theorem blacklisted_token_rejected_first_witness:
  "present (req_token (ex_request (Some ''eyJ.access'') (Some ''eyJ.refresh''))) = Some ''eyJ.access'' \<and>
   cachedVal (getKey (tokenCache (ex_world (ex_store [(''eyJ.access'', ex_claims, 3600)])
       (ex_store [(''eyJ.access'', [(''created_at'', JDate 10)], 3610)]))) 100 ''eyJ.access'') \<noteq> None \<and>
   jwt_verify ex_env ''eyJ.access'' 100 = Decoded ex_decoded \<and>
   cachedVal (getKey (tokenBlacklistCache (ex_world (ex_store [(''eyJ.access'', ex_claims, 3600)])
       (ex_store [(''eyJ.access'', [(''created_at'', JDate 10)], 3610)]))) 100 ''eyJ.access'') \<noteq> None \<and>
   sent (authorize ex_env (ex_world (ex_store [(''eyJ.access'', ex_claims, 3600)])
       (ex_store [(''eyJ.access'', [(''created_at'', JDate 10)], 3610)])) 100
       (ex_request (Some ''eyJ.access'') (Some ''eyJ.refresh''))) =
     Some \<lparr>res_status = 401, res_body = ErrorCode ''TOKEN INVALID''\<rparr> \<and>
   calls (refresh ex_env (ex_world (ex_store [(''eyJ.access'', ex_claims, 3600)])
       (ex_store [(''eyJ.access'', [(''created_at'', JDate 10)], 3610)])) 100
       (ex_request (Some ''eyJ.access'') (Some ''eyJ.refresh''))) = [BlacklistGet ''eyJ.access'']"
  using blacklisted_token_rejected_first
    [of "ex_request (Some ''eyJ.access'') (Some ''eyJ.refresh'')" "''eyJ.access''" ex_env
        "ex_world (ex_store [(''eyJ.access'', ex_claims, 3600)])
           (ex_store [(''eyJ.access'', [(''created_at'', JDate 10)], 3610)])" 100]
  by (simp add: ex_defs getKey_def)

section \<open>Time to live of session-cache entries\<close>

text \<open>What each write to the session cache passes as key, value and TTL.\<close>

lemma issue_tokens_cache_set:
  assumes "CacheSet k v ttl \<in> set (calls (issue_tokens E w now req u tr))"
    and "CacheSet k v ttl \<notin> set tr"
  shows "\<exists>pair. generateUserTokens E u (60 * 60) (60 * 60 * 24 * 7) now = Inr pair \<and>
           k = td_token (accessToken pair) \<and>
           v = with_exp_iat (td_payload (accessToken pair)) (td_exp (accessToken pair))
                 (td_iat (accessToken pair)) \<and>
           ttl = td_exp (accessToken pair) - td_iat (accessToken pair) \<and>
           (map_option res_status (sent (issue_tokens E w now req u tr)) = Some 200 \<longrightarrow>
              entries (tokenCache (final (issue_tokens E w now req u tr))) k =
                Some (v, now + ttl))"
proof (cases "generateUserTokens E u (60 * 60) (60 * 60 * 24 * 7) now")
  case (Inl e)
  with assms show ?thesis by (simp add: issue_tokens_def)
next
  case gen: (Inr pair)
  show ?thesis
  proof (cases "TokenStore_create w u (accessToken pair) (refreshToken pair)
                  (req_requester_data req)")
    case (Inl e)
    with gen assms show ?thesis by (simp add: issue_tokens_def respond_sel)
  next
    case (Inr w1)
    obtain r c where sk:
      "setKey (tokenCache w1) now (td_token (accessToken pair))
         (with_exp_iat (td_payload (accessToken pair)) (td_exp (accessToken pair))
            (td_iat (accessToken pair)))
         (td_exp (accessToken pair) - td_iat (accessToken pair)) = (r, c)"
      by (rule prod.exhaust)
    from setKey_cases [OF sk] gen Inr sk assms show ?thesis
      by (auto simp: issue_tokens_def Let_def respond_sel)
  qed
qed

lemma sign_in_reaches_issue:
  assumes "CacheSet k v ttl \<in> set (calls (sign_in E w now req))"
  shows "\<exists>w1 u tr. sign_in E w now req = issue_tokens E w1 now req (Some u) tr \<and>
           CacheSet k v ttl \<notin> set tr"
  using assms
  apply (auto simp: sign_in_def Let_def respond_sel split: option.splits prod.splits if_splits)
  apply (intro exI conjI, rule refl, simp)
  done

lemma sign_in_cache_set:
  assumes "CacheSet k v ttl \<in> set (calls (sign_in E w now req))"
  shows "\<exists>u pair. generateUserTokens E u (60 * 60) (60 * 60 * 24 * 7) now = Inr pair \<and>
           k = td_token (accessToken pair) \<and>
           v = with_exp_iat (td_payload (accessToken pair)) (td_exp (accessToken pair))
                 (td_iat (accessToken pair)) \<and>
           ttl = td_exp (accessToken pair) - td_iat (accessToken pair) \<and>
           (map_option res_status (sent (sign_in E w now req)) = Some 200 \<longrightarrow>
              entries (tokenCache (final (sign_in E w now req))) k = Some (v, now + ttl))"
proof -
  from sign_in_reaches_issue [OF assms] obtain w1 u tr
    where eq: "sign_in E w now req = issue_tokens E w1 now req (Some u) tr"
      and tr: "CacheSet k v ttl \<notin> set tr"
    by blast
  from assms have "CacheSet k v ttl \<in> set (calls (issue_tokens E w1 now req (Some u) tr))"
    by (simp add: eq)
  from issue_tokens_cache_set [OF this tr] show ?thesis
    unfolding eq by blast
qed

lemma refresh_reaches_issue:
  assumes "CacheSet k v ttl \<in> set (calls (refresh E w now req))"
  shows "\<exists>w1 u tr. refresh E w now req = issue_tokens E w1 now req u tr \<and>
           CacheSet k v ttl \<notin> set tr"
  using assms
  apply (auto simp: refresh_def Let_def respond_sel
      split: option.splits prod.splits if_splits sum.splits)
  apply (intro exI conjI, rule refl, simp)
  done

lemma refresh_cache_set:
  assumes "CacheSet k v ttl \<in> set (calls (refresh E w now req))"
  shows "\<exists>u pair. generateUserTokens E u (60 * 60) (60 * 60 * 24 * 7) now = Inr pair \<and>
           k = td_token (accessToken pair) \<and>
           v = with_exp_iat (td_payload (accessToken pair)) (td_exp (accessToken pair))
                 (td_iat (accessToken pair)) \<and>
           ttl = td_exp (accessToken pair) - td_iat (accessToken pair) \<and>
           (map_option res_status (sent (refresh E w now req)) = Some 200 \<longrightarrow>
              entries (tokenCache (final (refresh E w now req))) k = Some (v, now + ttl))"
proof -
  from refresh_reaches_issue [OF assms] obtain w1 u tr
    where eq: "refresh E w now req = issue_tokens E w1 now req u tr"
      and tr: "CacheSet k v ttl \<notin> set tr"
    by blast
  from assms have "CacheSet k v ttl \<in> set (calls (issue_tokens E w1 now req u tr))"
    by (simp add: eq)
  from issue_tokens_cache_set [OF this tr] show ?thesis
    unfolding eq by blast
qed

lemma authorize_verify_cache_set:
  assumes "CacheSet k v ttl \<in> set (calls (authorize_verify E w now req t tr))"
    and "CacheSet k v ttl \<notin> set tr"
  shows "\<exists>d. jwt_verify E t now = Decoded d \<and> k = t \<and> v = decoded_obj d \<and>
           ttl = d_exp d - d_iat d \<and>
           (map_option res_status (sent (authorize_verify E w now req t tr)) = Some 200 \<longrightarrow>
              entries (tokenCache (final (authorize_verify E w now req t tr))) k =
                Some (v, now + ttl))"
proof (cases "jwt_verify E t now")
  case (VerifyError name)
  with assms show ?thesis
    by (simp add: authorize_verify_def respond_sel split: if_splits)
next
  case (Decoded d)
  obtain err cs w1 where vr: "validateRefreshTokenCookie E req t w = (err, cs, w1)"
    by (rule prod_cases3)
  show ?thesis
  proof (cases err)
    case (Some e)
    with Decoded vr assms show ?thesis by (simp add: authorize_verify_def respond_sel)
  next
    case None
    obtain r c where sk:
      "setKey (tokenCache w1) now t (decoded_obj d) (d_exp d - d_iat d) = (r, c)"
      by (rule prod.exhaust)
    from setKey_cases [OF sk] Decoded vr None sk assms show ?thesis
      by (auto simp: authorize_verify_def Let_def respond_sel)
  qed
qed

lemma authorize_reaches_verify:
  assumes "CacheSet k v ttl \<in> set (calls (authorize E w now req))"
  shows "\<exists>t tr. present (req_token req) = Some t \<and>
           authorize E w now req = authorize_verify E w now req t tr \<and>
           CacheSet k v ttl \<notin> set tr"
  using assms
  by (auto simp: authorize_def Let_def respond_sel split: option.splits prod.splits if_splits)

lemma authorize_cache_set:
  assumes "CacheSet k v ttl \<in> set (calls (authorize E w now req))"
  shows "\<exists>d. jwt_verify E k now = Decoded d \<and> v = decoded_obj d \<and>
           ttl = d_exp d - d_iat d \<and>
           (map_option res_status (sent (authorize E w now req)) = Some 200 \<longrightarrow>
              entries (tokenCache (final (authorize E w now req))) k = Some (v, now + ttl))"
proof -
  from authorize_reaches_verify [OF assms] obtain t tr
    where eq: "authorize E w now req = authorize_verify E w now req t tr"
      and tr: "CacheSet k v ttl \<notin> set tr"
    by blast
  from assms have "CacheSet k v ttl \<in> set (calls (authorize_verify E w now req t tr))"
    by (simp add: eq)
  from authorize_verify_cache_set [OF this tr] show ?thesis
    unfolding eq by blast
qed

lemma executeImpl_cache_token:
  assumes "CacheToken k p ttl \<in> set (steps (executeImpl C now req))"
  shows "\<exists>d. verify C k now = Decoded d \<and> p = without_exp_iat (decoded_obj d) \<and>
           ttl = d_exp d - d_iat d"
  using assms
  by (auto simp: executeImpl_def Let_def
      split: option.splits sum.splits bool.splits verify_result.splits if_splits)

text \<open>
  C2 on the fallback path of \<^verbatim>\<open>/authorize\<close>.  The token is neither blacklisted nor
  cached, its signature verifies and the refresh-cookie check passes.  The handler
  caches the decoded token with TTL \<open>exp - iat\<close>, counted from the instant of the
  request.  When that instant is later than \<open>iat\<close>, the entry expires later than \<open>exp\<close>:
  at \<open>exp\<close> and until \<open>now + (exp - iat)\<close> the token is still read from the cache.
  (The comment above the same computation in \<^verbatim>\<open>AuthorizeController.executeImpl\<close> reads
  \<^verbatim>\<open>calculate remaining lifespan\<close>.)
\<close>

theorem fallback_cache_entry_outlives_token:
  assumes "present (req_token req) = Some t"
    and "cacheError (getKey (tokenBlacklistCache w) now t) = None"
    and "cachedVal (getKey (tokenBlacklistCache w) now t) = None"
    and "cacheError (getKey (tokenCache w) now t) = None"
    and "cachedVal (getKey (tokenCache w) now t) = None"
    and "jwt_verify E t now = Decoded d"
    and "validateRefreshTokenCookie E req t w = (None, cs, w1)"
    and "get_fault (tokenCache w1) = None"
    and "set_fault (tokenCache w1) = None"
    and "d_iat d < d_exp d"
    and "d_iat d < now"
  shows "calls (authorize E w now req) =
           [BlacklistGet t, CacheGet t, JwtVerify t, ValidateRefreshTokenCookie t,
            CacheSet t (decoded_obj d) (d_exp d - d_iat d)] \<and>
         sent (authorize E w now req) =
           Some \<lparr>res_status = 200, res_body = Payload (without_exp_iat (decoded_obj d))\<rparr> \<and>
         entries (tokenCache (final (authorize E w now req))) t =
           Some (decoded_obj d, now + (d_exp d - d_iat d)) \<and>
         d_exp d < now + (d_exp d - d_iat d) \<and>
         (\<forall>t'. d_exp d \<le> t' \<and> t' < now + (d_exp d - d_iat d) \<longrightarrow>
            cachedVal (getKey (tokenCache (final (authorize E w now req))) t' t) =
              Some (decoded_obj d))"
proof -
  from assms(9,10)
  have sk: "setKey (tokenCache w1) now t (decoded_obj d) (d_exp d - d_iat d) =
              (\<lparr>set_status = ''OK'', set_cacheError = None\<rparr>,
               (tokenCache w1)\<lparr>entries :=
                 (entries (tokenCache w1))(t \<mapsto> (decoded_obj d, now + (d_exp d - d_iat d)))\<rparr>)"
    by (simp add: setKey_def)
  from assms(1-7) sk
  have run: "calls (authorize E w now req) =
               [BlacklistGet t, CacheGet t, JwtVerify t, ValidateRefreshTokenCookie t,
                CacheSet t (decoded_obj d) (d_exp d - d_iat d)]"
    "sent (authorize E w now req) =
       Some \<lparr>res_status = 200, res_body = Payload (without_exp_iat (decoded_obj d))\<rparr>"
    "final (authorize E w now req) =
       w1\<lparr>tokenCache := (tokenCache w1)\<lparr>entries :=
         (entries (tokenCache w1))(t \<mapsto> (decoded_obj d, now + (d_exp d - d_iat d)))\<rparr>\<rparr>"
    by (simp_all add: authorize_def authorize_verify_def Let_def respond_sel)
  have served: "cachedVal (getKey (tokenCache (final (authorize E w now req))) t' t) =
                  Some (decoded_obj d)"
    if "t' < now + (d_exp d - d_iat d)" for t'
    using that assms(8) by (simp add: run(3) getKey_def)
  from assms(11) have "d_exp d < now + (d_exp d - d_iat d)"
    by simp
  with run served show ?thesis
    by simp
qed

text \<open>
  The token issued at 0 and expiring at 3600 is first seen by \<^verbatim>\<open>/authorize\<close> at 1800.
  It is cached until 5400; at 4000 signature verification would report
  \<open>TokenExpiredError\<close>, and \<^verbatim>\<open>/authorize\<close> answers 200 from the cache without verifying.
\<close>

theorem fallback_cache_entry_outlives_token_witness:
  "jwt_verify ex_env ''eyJ.access'' 1800 = Decoded ex_decoded \<and>
   d_iat ex_decoded = 0 \<and> d_exp ex_decoded = 3600 \<and>
   calls (authorize ex_env (ex_world (ex_store []) (ex_store [])) 1800
       (ex_request (Some ''eyJ.access'') (Some ''eyJ.refresh''))) =
     [BlacklistGet ''eyJ.access'', CacheGet ''eyJ.access'', JwtVerify ''eyJ.access'',
      ValidateRefreshTokenCookie ''eyJ.access'',
      CacheSet ''eyJ.access'' (decoded_obj ex_decoded) 3600] \<and>
   entries (tokenCache (final (authorize ex_env (ex_world (ex_store []) (ex_store [])) 1800
       (ex_request (Some ''eyJ.access'') (Some ''eyJ.refresh''))))) ''eyJ.access'' =
     Some (decoded_obj ex_decoded, 5400) \<and>
   cachedVal (getKey (tokenCache (final (authorize ex_env (ex_world (ex_store []) (ex_store []))
       1800 (ex_request (Some ''eyJ.access'') (Some ''eyJ.refresh''))))) 4000 ''eyJ.access'') =
     Some (decoded_obj ex_decoded) \<and>
   jwt_verify ex_env ''eyJ.access'' 4000 = VerifyError ''TokenExpiredError'' \<and>
   sent (authorize ex_env
       (final (authorize ex_env (ex_world (ex_store []) (ex_store [])) 1800
          (ex_request (Some ''eyJ.access'') (Some ''eyJ.refresh''))))
       4000 (ex_request (Some ''eyJ.access'') (Some ''eyJ.refresh''))) =
     Some \<lparr>res_status = 200, res_body = Payload ex_claims\<rparr> \<and>
   calls (authorize ex_env
       (final (authorize ex_env (ex_world (ex_store []) (ex_store [])) 1800
          (ex_request (Some ''eyJ.access'') (Some ''eyJ.refresh''))))
       4000 (ex_request (Some ''eyJ.access'') (Some ''eyJ.refresh''))) =
     [BlacklistGet ''eyJ.access'', CacheGet ''eyJ.access'',
      ValidateRefreshTokenCookie ''eyJ.access'']"
proof -
  have a: "present (req_token (ex_request (Some ''eyJ.access'') (Some ''eyJ.refresh''))) =
      Some ''eyJ.access''"
    by (simp add: ex_defs)
  have b: "cacheError (getKey (tokenBlacklistCache (ex_world (ex_store []) (ex_store [])))
             1800 ''eyJ.access'') = None"
    "cachedVal (getKey (tokenBlacklistCache (ex_world (ex_store []) (ex_store [])))
             1800 ''eyJ.access'') = None"
    "cacheError (getKey (tokenCache (ex_world (ex_store []) (ex_store [])))
             1800 ''eyJ.access'') = None"
    "cachedVal (getKey (tokenCache (ex_world (ex_store []) (ex_store [])))
             1800 ''eyJ.access'') = None"
    by (simp_all add: ex_defs getKey_def)
  have c: "jwt_verify ex_env ''eyJ.access'' 1800 = Decoded ex_decoded"
    "jwt_verify ex_env ''eyJ.access'' 4000 = VerifyError ''TokenExpiredError''"
    by (simp_all add: ex_defs)
  have d: "validateRefreshTokenCookie ex_env (ex_request (Some ''eyJ.access'') (Some ''eyJ.refresh''))
             ''eyJ.access'' (ex_world (ex_store []) (ex_store [])) =
           (None, [], ex_world (ex_store []) (ex_store []))"
    by (simp add: ex_env_def ex_validate_def)
  have e: "get_fault (tokenCache (ex_world (ex_store []) (ex_store []))) = None"
    "set_fault (tokenCache (ex_world (ex_store []) (ex_store []))) = None"
    by (simp_all add: ex_defs)
  have f: "d_iat ex_decoded < d_exp ex_decoded" "d_iat ex_decoded < 1800"
    "d_iat ex_decoded = 0" "d_exp ex_decoded = 3600"
    by (simp_all add: ex_defs)
  have again: "sent (authorize ex_env
       (final (authorize ex_env (ex_world (ex_store []) (ex_store [])) 1800
          (ex_request (Some ''eyJ.access'') (Some ''eyJ.refresh''))))
       4000 (ex_request (Some ''eyJ.access'') (Some ''eyJ.refresh''))) =
     Some \<lparr>res_status = 200, res_body = Payload ex_claims\<rparr>"
    "calls (authorize ex_env
       (final (authorize ex_env (ex_world (ex_store []) (ex_store [])) 1800
          (ex_request (Some ''eyJ.access'') (Some ''eyJ.refresh''))))
       4000 (ex_request (Some ''eyJ.access'') (Some ''eyJ.refresh''))) =
     [BlacklistGet ''eyJ.access'', CacheGet ''eyJ.access'',
      ValidateRefreshTokenCookie ''eyJ.access'']"
    by (simp_all add: ex_defs handler_defs AList.delete_eq)
  from fallback_cache_entry_outlives_token [OF a b c(1) d e f(1,2)] c f(3,4) again
  show ?thesis
    by simp
qed

section \<open>Sign-out\<close>

text \<open>
  C3, as the code has it.  A successful sign-out of a token with timestamps \<open>iat\<close> and
  \<open>exp\<close> writes the blacklist entry with TTL \<open>exp - iat\<close>, the whole lifetime of the
  token: the entry expires \<open>exp - iat\<close> seconds after the sign-out, and while the
  blacklist can be read the token is blacklisted exactly until then.  When the sign-out
  is not earlier than \<open>iat\<close>, that instant is not earlier than \<open>exp\<close>.
\<close>

theorem blacklist_ttl_is_token_lifetime:
  assumes "present (req_token req) = Some t"
    and "sent (sign_out E w now req) = Some \<lparr>res_status = 200, res_body = Text ''SUCCESS''\<rparr>"
  shows "\<exists>d. jwt_verify E t now = Decoded d \<and>
           calls (sign_out E w now req) =
             [BlacklistGet t, JwtVerify t,
              BlacklistSet t [(''created_at'', JDate now)] (d_exp d - d_iat d)] \<and>
           entries (tokenBlacklistCache (final (sign_out E w now req))) t =
             Some ([(''created_at'', JDate now)], now + (d_exp d - d_iat d)) \<and>
           (\<forall>t'. get_fault (tokenBlacklistCache w) = None \<longrightarrow>
              (cachedVal (getKey (tokenBlacklistCache (final (sign_out E w now req))) t' t) \<noteq> None)
                = (t' < now + (d_exp d - d_iat d))) \<and>
           (d_iat d \<le> now \<longrightarrow> d_exp d \<le> now + (d_exp d - d_iat d))"
proof (cases "jwt_verify E t now")
  case (VerifyError name)
  with assms show ?thesis
    by (simp add: sign_out_def Let_def respond_sel split: if_splits)
next
  case (Decoded d)
  obtain r b where sk:
    "setKey (tokenBlacklistCache w) now t [(''created_at'', JDate now)] (d_exp d - d_iat d) = (r, b)"
    by (rule prod.exhaust)
  from assms Decoded sk have ok: "set_status r = ''OK''"
    by (simp add: sign_out_def Let_def respond_sel split: if_splits)
  with setKey_cases [OF sk]
  have b: "b = (tokenBlacklistCache w)\<lparr>entries :=
             (entries (tokenBlacklistCache w))(t \<mapsto> ([(''created_at'', JDate now)],
                now + (d_exp d - d_iat d)))\<rparr>"
    by simp
  from assms Decoded sk ok
  have run: "calls (sign_out E w now req) =
               [BlacklistGet t, JwtVerify t,
                BlacklistSet t [(''created_at'', JDate now)] (d_exp d - d_iat d)]"
    "final (sign_out E w now req) = w\<lparr>tokenBlacklistCache := b\<rparr>"
    by (simp_all add: sign_out_def Let_def respond_sel split: if_splits)
  have "\<forall>t'. get_fault (tokenBlacklistCache w) = None \<longrightarrow>
          (cachedVal (getKey b t' t) \<noteq> None) = (t' < now + (d_exp d - d_iat d))"
    by (simp add: b getKey_def)
  with Decoded run b show ?thesis
    by simp
qed

theorem blacklist_ttl_is_token_lifetime_witness:
  "present (req_token (ex_request (Some ''eyJ.access'') None)) = Some ''eyJ.access'' \<and>
   sent (sign_out ex_env (ex_world (ex_store []) (ex_store [])) 1800
          (ex_request (Some ''eyJ.access'') None)) =
     Some \<lparr>res_status = 200, res_body = Text ''SUCCESS''\<rparr> \<and>
   jwt_verify ex_env ''eyJ.access'' 1800 = Decoded ex_decoded \<and>
   d_exp ex_decoded - d_iat ex_decoded = 3600 \<and>
   entries (tokenBlacklistCache (final (sign_out ex_env (ex_world (ex_store []) (ex_store []))
       1800 (ex_request (Some ''eyJ.access'') None)))) ''eyJ.access'' =
     Some ([(''created_at'', JDate 1800)], 5400)"
proof -
  have a: "present (req_token (ex_request (Some ''eyJ.access'') None)) = Some ''eyJ.access''"
    by (simp add: ex_defs)
  have b: "sent (sign_out ex_env (ex_world (ex_store []) (ex_store [])) 1800
          (ex_request (Some ''eyJ.access'') None)) =
     Some \<lparr>res_status = 200, res_body = Text ''SUCCESS''\<rparr>"
    by (simp add: ex_defs handler_defs)
  have c: "jwt_verify ex_env ''eyJ.access'' 1800 = Decoded ex_decoded"
    "d_exp ex_decoded - d_iat ex_decoded = 3600"
    by (simp_all add: ex_defs)
  from blacklist_ttl_is_token_lifetime [OF a b] obtain d
    where d: "jwt_verify ex_env ''eyJ.access'' 1800 = Decoded d"
      and e: "entries (tokenBlacklistCache (final (sign_out ex_env
                (ex_world (ex_store []) (ex_store [])) 1800
                (ex_request (Some ''eyJ.access'') None)))) ''eyJ.access'' =
              Some ([(''created_at'', JDate 1800)], 1800 + (d_exp d - d_iat d))"
    by blast
  from d c(1) have "d = ex_decoded"
    by simp
  with e c(2) a b c(1) show ?thesis
    by simp
qed

text \<open>
  C3 as stated fails: signing out at 1800 the token issued at 0 and expiring at 3600
  writes the TTL 3600, not the remaining 1800 seconds, and the token is still
  blacklisted at 4000, after its natural expiry.
\<close>

theorem blacklist_ttl_not_remaining_counterexample:
  "jwt_verify ex_env ''eyJ.access'' 1800 = Decoded \<lparr>d_claims = ex_claims, d_exp = 3600, d_iat = 0\<rparr> \<and>
   sent (sign_out ex_env (ex_world (ex_store []) (ex_store [])) 1800
          (ex_request (Some ''eyJ.access'') None)) =
     Some \<lparr>res_status = 200, res_body = Text ''SUCCESS''\<rparr> \<and>
   calls (sign_out ex_env (ex_world (ex_store []) (ex_store [])) 1800
          (ex_request (Some ''eyJ.access'') None)) =
     [BlacklistGet ''eyJ.access'', JwtVerify ''eyJ.access'',
      BlacklistSet ''eyJ.access'' [(''created_at'', JDate 1800)] 3600] \<and>
   cachedVal (getKey (tokenBlacklistCache (final (sign_out ex_env
       (ex_world (ex_store []) (ex_store [])) 1800 (ex_request (Some ''eyJ.access'') None))))
       4000 ''eyJ.access'') = Some [(''created_at'', JDate 1800)]"
  by (simp add: ex_defs handler_defs)

section \<open>Store faults\<close>

lemma authorize_blacklist_fault:
  assumes "present (req_token req) = Some t"
    and "cacheError (getKey (tokenBlacklistCache w) now t) \<noteq> None"
  shows "authorize E w now req =
           respond 500 (ErrorCode ''PROBLEM CHECKING BLACKLIST CACHE'') [] [BlacklistGet t] w"
  using assms by (simp add: authorize_def Let_def)

lemma refresh_blacklist_fault:
  assumes "present (req_token req) = Some t"
    and "cacheError (getKey (tokenBlacklistCache w) now t) \<noteq> None"
  shows "refresh E w now req =
           respond 500 (ErrorCode ''PROBLEM CHECKING BLACKLIST CACHE'') [] [BlacklistGet t] w"
  using assms by (simp add: refresh_def Let_def)

lemma authorize_cache_fault:
  assumes "present (req_token req) = Some t"
    and "cacheError (getKey (tokenBlacklistCache w) now t) = None"
    and "cachedVal (getKey (tokenBlacklistCache w) now t) = None"
    and "cacheError (getKey (tokenCache w) now t) \<noteq> None"
  shows "authorize E w now req =
           respond 500 (ErrorCode ''PROBLEM READING CACHE'') [] [BlacklistGet t, CacheGet t] w"
  using assms getKey_fault_no_value [of "tokenCache w" now t]
  by (simp add: authorize_def Let_def)

text \<open>
  C4 at \<^verbatim>\<open>/sign-out\<close>.  When the blacklist read fails, the handler goes on as if the token
  were not blacklisted: it verifies the signature and writes the blacklist entry, and when
  that write succeeds it answers 200 \<open>SUCCESS\<close>.  (\<^verbatim>\<open>/authorize\<close> and \<^verbatim>\<open>/refresh\<close> answer
  500 in the same situation, see the three lemmas above.)
\<close>

theorem sign_out_continues_after_blacklist_fault:
  assumes "present (req_token req) = Some t"
    and "cacheError (getKey (tokenBlacklistCache w) now t) = Some e"
    and "jwt_verify E t now = Decoded d"
  shows "calls (sign_out E w now req) =
           [BlacklistGet t, JwtVerify t,
            BlacklistSet t [(''created_at'', JDate now)] (d_exp d - d_iat d)] \<and>
         (set_fault (tokenBlacklistCache w) = None \<and> 0 < d_exp d - d_iat d \<longrightarrow>
            sent (sign_out E w now req) =
              Some \<lparr>res_status = 200, res_body = Text ''SUCCESS''\<rparr>)"
proof -
  from assms(2) have "cachedVal (getKey (tokenBlacklistCache w) now t) = None"
    by (simp add: getKey_fault_no_value)
  with assms(1,3) show ?thesis
    by (simp add: sign_out_def Let_def respond_sel setKey_def split: prod.splits option.splits)
qed

text \<open>The blacklist store refuses reads; the token is valid at 1800.\<close>

theorem sign_out_continues_after_blacklist_fault_witness:
  "present (req_token (ex_request (Some ''eyJ.access'') None)) = Some ''eyJ.access'' \<and>
   cacheError (getKey (tokenBlacklistCache
       (ex_world (ex_store []) ((ex_store [])\<lparr>get_fault := Some ''ECONNREFUSED''\<rparr>)))
       1800 ''eyJ.access'') = Some ''ECONNREFUSED'' \<and>
   jwt_verify ex_env ''eyJ.access'' 1800 = Decoded ex_decoded \<and>
   calls (sign_out ex_env
       (ex_world (ex_store []) ((ex_store [])\<lparr>get_fault := Some ''ECONNREFUSED''\<rparr>)) 1800
       (ex_request (Some ''eyJ.access'') None)) =
     [BlacklistGet ''eyJ.access'', JwtVerify ''eyJ.access'',
      BlacklistSet ''eyJ.access'' [(''created_at'', JDate 1800)] 3600] \<and>
   sent (sign_out ex_env
       (ex_world (ex_store []) ((ex_store [])\<lparr>get_fault := Some ''ECONNREFUSED''\<rparr>)) 1800
       (ex_request (Some ''eyJ.access'') None)) =
     Some \<lparr>res_status = 200, res_body = Text ''SUCCESS''\<rparr>"
proof -
  have a: "present (req_token (ex_request (Some ''eyJ.access'') None)) = Some ''eyJ.access''"
    by (simp add: ex_defs)
  have b: "cacheError (getKey (tokenBlacklistCache
       (ex_world (ex_store []) ((ex_store [])\<lparr>get_fault := Some ''ECONNREFUSED''\<rparr>)))
       1800 ''eyJ.access'') = Some ''ECONNREFUSED''"
    by (simp add: ex_defs getKey_def)
  have c: "jwt_verify ex_env ''eyJ.access'' 1800 = Decoded ex_decoded"
    by (simp add: ex_defs)
  from sign_out_continues_after_blacklist_fault [OF a b c] a b c show ?thesis
    by (simp add: ex_defs)
qed

section \<open>Sign-in rejections\<close>

text \<open>
  C5.  A sign-in whose email matches no user and a sign-in whose password does not match
  the stored hash get the same response: status 401 with the error code
  \<open>EMAIL/PASSWORD COMBINATION NOT RECOGNIZED\<close>, and no cookie operation in either.
\<close>

theorem sign_in_rejections_indistinguishable:
  assumes "present (req_email r1) = Some e1" and "present (req_password r1) = Some p1"
    and "fetchUserByEmail E1 e1 (tokenCache w1) = (\<lparr>fr_user = None, fr_error = None\<rparr>, c1)"
    and "present (req_email r2) = Some e2" and "present (req_password r2) = Some p2"
    and "fetchUserByEmail E2 e2 (tokenCache w2) = (\<lparr>fr_user = Some u, fr_error = None\<rparr>, c2)"
    and "\<not> verifyUserPassword E2 p2 (password u)"
  shows "sent (sign_in E1 w1 n1 r1) = sent (sign_in E2 w2 n2 r2) \<and>
         sent (sign_in E1 w1 n1 r1) =
           Some \<lparr>res_status = 401,
                 res_body = ErrorCode ''EMAIL/PASSWORD COMBINATION NOT RECOGNIZED''\<rparr> \<and>
         cookies (sign_in E1 w1 n1 r1) = [] \<and> cookies (sign_in E2 w2 n2 r2) = []"
  using assms by (simp add: sign_in_def Let_def respond_sel)

text \<open>An unknown email against the known email with a wrong password.\<close>

theorem sign_in_rejections_indistinguishable_witness:
  "fetchUserByEmail ex_env ''b@x.com'' (ex_store []) =
     (\<lparr>fr_user = None, fr_error = None\<rparr>, ex_store []) \<and>
   fetchUserByEmail ex_env ''a@x.com'' (ex_store []) =
     (\<lparr>fr_user = Some ex_user, fr_error = None\<rparr>, ex_store []) \<and>
   \<not> verifyUserPassword ex_env ''p2'' (password ex_user) \<and>
   sent (sign_in ex_env (ex_world (ex_store []) (ex_store [])) 100 (ex_credentials ''b@x.com'' ''p1'')) =
   sent (sign_in ex_env (ex_world (ex_store []) (ex_store [])) 100 (ex_credentials ''a@x.com'' ''p2''))"
proof -
  have a: "fetchUserByEmail ex_env ''b@x.com'' (tokenCache (ex_world (ex_store []) (ex_store []))) =
     (\<lparr>fr_user = None, fr_error = None\<rparr>, ex_store [])"
    by (simp add: ex_defs)
  have b: "fetchUserByEmail ex_env ''a@x.com'' (tokenCache (ex_world (ex_store []) (ex_store []))) =
     (\<lparr>fr_user = Some ex_user, fr_error = None\<rparr>, ex_store [])"
    by (simp add: ex_defs)
  have c: "\<not> verifyUserPassword ex_env ''p2'' (password ex_user)"
    by (simp add: ex_defs)
  have d: "present (req_email (ex_credentials ''b@x.com'' ''p1'')) = Some ''b@x.com''"
    "present (req_password (ex_credentials ''b@x.com'' ''p1'')) = Some ''p1''"
    "present (req_email (ex_credentials ''a@x.com'' ''p2'')) = Some ''a@x.com''"
    "present (req_password (ex_credentials ''a@x.com'' ''p2'')) = Some ''p2''"
    by (simp_all add: ex_defs)
  from sign_in_rejections_indistinguishable [OF d(1) d(2) a d(3) d(4) b c, of 100 100] a b c
  show ?thesis by (simp add: ex_world_def)
qed

section \<open>Cache hits in \<^verbatim>\<open>/authorize\<close>\<close>

lemma authorize_verify_no_delete:
  "CacheDelete k \<notin> set tr \<Longrightarrow> CacheDelete k \<notin> set (calls (authorize_verify E w now req t tr))"
  by (simp add: authorize_verify_def Let_def respond_sel
      split: verify_result.splits prod.splits option.splits)

lemma authorize_miss_no_delete:
  assumes "present (req_token req) = Some t"
    and "cachedVal (getKey (tokenCache w) now t) = None"
  shows "CacheDelete k \<notin> set (calls (authorize E w now req))"
  using assms
  by (simp add: authorize_def Let_def respond_sel authorize_verify_no_delete)

lemma without_exp_iat_keys:
  "''exp'' \<notin> fst ` set (without_exp_iat v) \<and> ''iat'' \<notin> fst ` set (without_exp_iat v)"
  by (auto simp: without_exp_iat_def AList.delete_eq)

text \<open>
  C6, as the code has it.  The handler recognises a system token by the first three
  characters of the token string.  On a cache hit for a token that begins with \<open>SYS\<close> it
  deletes the cache entry and answers 200 with the cached claims (without \<open>exp\<close> and
  \<open>iat\<close>); the refresh-cookie check is not called.  Afterwards the cache has no value
  for the token at any instant, and a second \<^verbatim>\<open>/authorize\<close> with the same token does not
  take the cache path again.
\<close>

theorem sys_prefixed_cache_hit_consumed:
  assumes "present (req_token req) = Some t"
    and "cacheError (getKey (tokenBlacklistCache w) now t) = None"
    and "cachedVal (getKey (tokenBlacklistCache w) now t) = None"
    and "cachedVal (getKey (tokenCache w) now t) = Some v"
    and "take 3 t = ''SYS''"
  shows "sent (authorize E w now req) =
           Some \<lparr>res_status = 200, res_body = Payload (without_exp_iat v)\<rparr> \<and>
         calls (authorize E w now req) = [BlacklistGet t, CacheGet t, CacheDelete t] \<and>
         (\<forall>now'. cachedVal (getKey (tokenCache (final (authorize E w now req))) now' t) = None) \<and>
         (\<forall>E' now'. CacheDelete t \<notin> set (calls (authorize E' (final (authorize E w now req)) now' req)))"
proof -
  from assms have run:
    "sent (authorize E w now req) =
       Some \<lparr>res_status = 200, res_body = Payload (without_exp_iat v)\<rparr>"
    "calls (authorize E w now req) = [BlacklistGet t, CacheGet t, CacheDelete t]"
    "final (authorize E w now req) = w\<lparr>tokenCache := deleteKey (tokenCache w) t\<rparr>"
    by (simp_all add: authorize_def Let_def respond_sel)
  have gone: "cachedVal (getKey (tokenCache (final (authorize E w now req))) now' t) = None"
    for now'
    by (simp add: run getKey_deleted)
  from authorize_miss_no_delete [OF assms(1) gone] run gone show ?thesis
    by simp
qed

text \<open>The token \<open>SYS1\<close> is cached with system claims until 3600.\<close>

theorem sys_prefixed_cache_hit_consumed_witness:
  "present (req_token (ex_request (Some ''SYS1'') None)) = Some ''SYS1'' \<and>
   cachedVal (getKey (tokenCache (ex_world (ex_store [(''SYS1'', ex_system_claims, 3600)])
       (ex_store []))) 1800 ''SYS1'') = Some ex_system_claims \<and>
   take 3 ''SYS1'' = ''SYS'' \<and>
   sent (authorize ex_env (ex_world (ex_store [(''SYS1'', ex_system_claims, 3600)]) (ex_store []))
       1800 (ex_request (Some ''SYS1'') None)) =
     Some \<lparr>res_status = 200, res_body = Payload [(''access_type'', JStr ''SYSTEM'')]\<rparr> \<and>
   cachedVal (getKey (tokenCache (final (authorize ex_env
       (ex_world (ex_store [(''SYS1'', ex_system_claims, 3600)]) (ex_store []))
       1800 (ex_request (Some ''SYS1'') None)))) 1801 ''SYS1'') = None"
proof -
  have a: "present (req_token (ex_request (Some ''SYS1'') None)) = Some ''SYS1''"
    by (simp add: ex_defs)
  have b: "cacheError (getKey (tokenBlacklistCache
       (ex_world (ex_store [(''SYS1'', ex_system_claims, 3600)]) (ex_store []))) 1800 ''SYS1'') = None"
    "cachedVal (getKey (tokenBlacklistCache
       (ex_world (ex_store [(''SYS1'', ex_system_claims, 3600)]) (ex_store []))) 1800 ''SYS1'') = None"
    by (simp_all add: ex_defs getKey_def)
  have c: "cachedVal (getKey (tokenCache (ex_world (ex_store [(''SYS1'', ex_system_claims, 3600)])
       (ex_store []))) 1800 ''SYS1'') = Some ex_system_claims"
    by (simp add: ex_defs getKey_def)
  have d: "take 3 ''SYS1'' = ''SYS''"
    by simp
  have e: "without_exp_iat ex_system_claims = [(''access_type'', JStr ''SYSTEM'')]"
    by (simp add: ex_defs without_exp_iat_def AList.delete_eq)
  from sys_prefixed_cache_hit_consumed [OF a b c d, of ex_env] a c d e show ?thesis
    by simp
qed

text \<open>
  C6 as stated fails.  The token \<open>abc\<close> is cached with claims of access type \<open>SYSTEM\<close>;
  \<^verbatim>\<open>/authorize\<close> calls the refresh-cookie check, deletes nothing, and the entry is still
  read from the cache afterwards.
\<close>

theorem system_claims_without_prefix_counterexample:
  "map_of ex_system_claims ''access_type'' = Some (JStr ''SYSTEM'') \<and>
   cachedVal (getKey (tokenCache (ex_world (ex_store [(''abc'', ex_system_claims, 3600)])
       (ex_store []))) 1800 ''abc'') = Some ex_system_claims \<and>
   calls (authorize ex_env (ex_world (ex_store [(''abc'', ex_system_claims, 3600)]) (ex_store []))
       1800 (ex_request (Some ''abc'') None)) =
     [BlacklistGet ''abc'', CacheGet ''abc'', ValidateRefreshTokenCookie ''abc''] \<and>
   cachedVal (getKey (tokenCache (final (authorize ex_env
       (ex_world (ex_store [(''abc'', ex_system_claims, 3600)]) (ex_store []))
       1800 (ex_request (Some ''abc'') None)))) 1801 ''abc'') = Some ex_system_claims"
  by (simp add: ex_defs handler_defs)

text \<open>
  C9, as the code has it.  On a cache hit for a token that does not begin with \<open>SYS\<close>,
  the handler calls the refresh-cookie check before it responds.  When the check reports
  an error the response carries that error's status and code; otherwise the response is
  200 with the cached claims, which have no \<open>exp\<close> and no \<open>iat\<close> property.
\<close>

theorem cache_hit_linkage_check:
  assumes "present (req_token req) = Some t"
    and "cacheError (getKey (tokenBlacklistCache w) now t) = None"
    and "cachedVal (getKey (tokenBlacklistCache w) now t) = None"
    and "cachedVal (getKey (tokenCache w) now t) = Some v"
    and "take 3 t \<noteq> ''SYS''"
    and "validateRefreshTokenCookie E req t w = (err, cs, w1)"
  shows "calls (authorize E w now req) =
           [BlacklistGet t, CacheGet t, ValidateRefreshTokenCookie t] \<and>
         sent (authorize E w now req) =
           (case err of
              Some e \<Rightarrow> Some \<lparr>res_status = le_status e, res_body = ErrorCode (le_code e)\<rparr>
            | None \<Rightarrow> Some \<lparr>res_status = 200, res_body = Payload (without_exp_iat v)\<rparr>) \<and>
         ''exp'' \<notin> fst ` set (without_exp_iat v) \<and> ''iat'' \<notin> fst ` set (without_exp_iat v)"
  using assms without_exp_iat_keys [of v]
  by (simp add: authorize_def Let_def respond_sel split: option.splits)

text \<open>The token \<open>eyJ.access\<close> is cached with its claims, \<open>exp\<close> and \<open>iat\<close> until 3600.\<close>

theorem cache_hit_linkage_check_witness:
  "present (req_token (ex_request (Some ''eyJ.access'') (Some ''eyJ.refresh''))) = Some ''eyJ.access'' \<and>
   cachedVal (getKey (tokenCache (ex_world
       (ex_store [(''eyJ.access'', with_exp_iat ex_claims 3600 0, 3600)]) (ex_store [])))
       1800 ''eyJ.access'') = Some (with_exp_iat ex_claims 3600 0) \<and>
   take 3 ''eyJ.access'' \<noteq> ''SYS'' \<and>
   calls (authorize ex_env (ex_world
       (ex_store [(''eyJ.access'', with_exp_iat ex_claims 3600 0, 3600)]) (ex_store []))
       1800 (ex_request (Some ''eyJ.access'') (Some ''eyJ.refresh''))) =
     [BlacklistGet ''eyJ.access'', CacheGet ''eyJ.access'', ValidateRefreshTokenCookie ''eyJ.access''] \<and>
   sent (authorize ex_env (ex_world
       (ex_store [(''eyJ.access'', with_exp_iat ex_claims 3600 0, 3600)]) (ex_store []))
       1800 (ex_request (Some ''eyJ.access'') (Some ''eyJ.refresh''))) =
     Some \<lparr>res_status = 200, res_body = Payload ex_claims\<rparr>"
proof -
  have a: "present (req_token (ex_request (Some ''eyJ.access'') (Some ''eyJ.refresh''))) =
      Some ''eyJ.access''"
    by (simp add: ex_defs)
  have b: "cacheError (getKey (tokenBlacklistCache (ex_world
       (ex_store [(''eyJ.access'', with_exp_iat ex_claims 3600 0, 3600)]) (ex_store [])))
       1800 ''eyJ.access'') = None"
    "cachedVal (getKey (tokenBlacklistCache (ex_world
       (ex_store [(''eyJ.access'', with_exp_iat ex_claims 3600 0, 3600)]) (ex_store [])))
       1800 ''eyJ.access'') = None"
    by (simp_all add: ex_defs getKey_def)
  have c: "cachedVal (getKey (tokenCache (ex_world
       (ex_store [(''eyJ.access'', with_exp_iat ex_claims 3600 0, 3600)]) (ex_store [])))
       1800 ''eyJ.access'') = Some (with_exp_iat ex_claims 3600 0)"
    by (simp add: ex_world_def ex_store_def getKey_def)
  have d: "take 3 ''eyJ.access'' \<noteq> ''SYS''"
    by simp
  have e: "validateRefreshTokenCookie ex_env (ex_request (Some ''eyJ.access'') (Some ''eyJ.refresh''))
      ''eyJ.access'' (ex_world
       (ex_store [(''eyJ.access'', with_exp_iat ex_claims 3600 0, 3600)]) (ex_store [])) =
     (None, [], ex_world
       (ex_store [(''eyJ.access'', with_exp_iat ex_claims 3600 0, 3600)]) (ex_store []))"
    by (simp add: ex_env_def ex_validate_def)
  have f: "without_exp_iat (with_exp_iat ex_claims 3600 0) = ex_claims"
    by (simp add: ex_claims_def without_exp_iat_def with_exp_iat_def AList.delete_eq)
  from cache_hit_linkage_check [OF a b c d e] a c d f show ?thesis
    by simp
qed

text \<open>
  C9 as stated fails.  The token \<open>SYS1\<close> is cached with claims of access type \<open>USER\<close>;
  \<^verbatim>\<open>/authorize\<close> answers 200 without calling the refresh-cookie check.
\<close>

theorem user_claims_with_sys_prefix_counterexample:
  "map_of ex_claims ''access_type'' = Some (JStr ''USER'') \<and>
   cachedVal (getKey (tokenCache (ex_world (ex_store [(''SYS1'', ex_claims, 3600)])
       (ex_store []))) 1800 ''SYS1'') = Some ex_claims \<and>
   calls (authorize ex_env (ex_world (ex_store [(''SYS1'', ex_claims, 3600)]) (ex_store []))
       1800 (ex_request (Some ''SYS1'') None)) =
     [BlacklistGet ''SYS1'', CacheGet ''SYS1'', CacheDelete ''SYS1''] \<and>
   sent (authorize ex_env (ex_world (ex_store [(''SYS1'', ex_claims, 3600)]) (ex_store []))
       1800 (ex_request (Some ''SYS1'') None)) =
     Some \<lparr>res_status = 200, res_body = Payload ex_claims\<rparr>"
  by (simp add: ex_defs handler_defs AList.delete_eq)

text \<open>
  \<^verbatim>\<open>AuthorizeController.executeImpl\<close> has neither branch: on a cache hit it answers with
  the cached payload and calls nothing else.
\<close>

lemma executeImpl_cache_hit:
  assumes "present (req_token req) = Some t"
    and "isBlacklisted C t = Inr False"
    and "getCachedPayload C t = Inr (Some p)"
  shows "executeImpl C now req =
           \<lparr>reply = Some (Ok p), thrown = None, steps = [IsBlacklisted t, GetCachedPayload t]\<rparr>"
  using assms by (simp add: executeImpl_def)

section \<open>Missing inputs of \<^verbatim>\<open>/refresh\<close>\<close>

text \<open>
  C7, as the code has it.  A \<^verbatim>\<open>/refresh\<close> without access token is answered 400
  \<open>MISSING AUTHORIZATION BEARER TOKEN\<close> before any call.  A \<^verbatim>\<open>/refresh\<close> with a token
  and without refresh cookie makes the blacklist lookup and nothing else (no ledger
  lookup, no token issuance) and changes nothing.  Unless that lookup fails, the answer
  is a client error, status 401: \<open>REFRESH TOKEN INVALID\<close> with the cookie left alone when
  the token is not blacklisted.  When the lookup fails, the answer is 500
  \<open>PROBLEM CHECKING BLACKLIST CACHE\<close> and the missing cookie is not reported.
\<close>

theorem refresh_missing_inputs:
  "(present (req_token req) = None \<longrightarrow>
      sent (refresh E w now req) =
        Some \<lparr>res_status = 400, res_body = ErrorCode ''MISSING AUTHORIZATION BEARER TOKEN''\<rparr> \<and>
      calls (refresh E w now req) = []) \<and>
   (present (req_token req) = Some t \<and> present (req_refresh_cookie req) = None \<longrightarrow>
      calls (refresh E w now req) = [BlacklistGet t] \<and>
      final (refresh E w now req) = w \<and>
      (cacheError (getKey (tokenBlacklistCache w) now t) = None \<longrightarrow>
         map_option res_status (sent (refresh E w now req)) = Some 401 \<and>
         map_option res_status (sent (refresh E w now req)) \<in> Some ` {400 ..< 500}) \<and>
      (cacheError (getKey (tokenBlacklistCache w) now t) = None \<and>
       cachedVal (getKey (tokenBlacklistCache w) now t) = None \<longrightarrow>
         sent (refresh E w now req) =
           Some \<lparr>res_status = 401, res_body = ErrorCode ''REFRESH TOKEN INVALID''\<rparr> \<and>
         cookies (refresh E w now req) = []) \<and>
      (cacheError (getKey (tokenBlacklistCache w) now t) \<noteq> None \<longrightarrow>
         sent (refresh E w now req) =
           Some \<lparr>res_status = 500, res_body = ErrorCode ''PROBLEM CHECKING BLACKLIST CACHE''\<rparr>))"
  by (simp add: refresh_def Let_def respond_sel)

text \<open>
  A request with neither token nor cookie, and one with the token only, against a
  blacklist that answers and against one that refuses reads.
\<close>

theorem refresh_missing_inputs_witness:
  "present (req_token (ex_request None None)) = None \<and>
   sent (refresh ex_env (ex_world (ex_store []) (ex_store [])) 100 (ex_request None None)) =
     Some \<lparr>res_status = 400, res_body = ErrorCode ''MISSING AUTHORIZATION BEARER TOKEN''\<rparr> \<and>
   present (req_token (ex_request (Some ''eyJ.access'') None)) = Some ''eyJ.access'' \<and>
   present (req_refresh_cookie (ex_request (Some ''eyJ.access'') None)) = None \<and>
   cacheError (getKey (tokenBlacklistCache (ex_world (ex_store []) (ex_store []))) 100 ''eyJ.access'') = None \<and>
   cachedVal (getKey (tokenBlacklistCache (ex_world (ex_store []) (ex_store []))) 100 ''eyJ.access'') = None \<and>
   calls (refresh ex_env (ex_world (ex_store []) (ex_store [])) 100
       (ex_request (Some ''eyJ.access'') None)) = [BlacklistGet ''eyJ.access''] \<and>
   sent (refresh ex_env (ex_world (ex_store []) (ex_store [])) 100
       (ex_request (Some ''eyJ.access'') None)) =
     Some \<lparr>res_status = 401, res_body = ErrorCode ''REFRESH TOKEN INVALID''\<rparr> \<and>
   cacheError (getKey (tokenBlacklistCache
       (ex_world (ex_store []) ((ex_store [])\<lparr>get_fault := Some ''ECONNREFUSED''\<rparr>)))
       100 ''eyJ.access'') \<noteq> None \<and>
   calls (refresh ex_env
       (ex_world (ex_store []) ((ex_store [])\<lparr>get_fault := Some ''ECONNREFUSED''\<rparr>)) 100
       (ex_request (Some ''eyJ.access'') None)) = [BlacklistGet ''eyJ.access'']"
  using refresh_missing_inputs
      [of "ex_request None None" ex_env "ex_world (ex_store []) (ex_store [])" 100]
    refresh_missing_inputs
      [of "ex_request (Some ''eyJ.access'') None" ex_env "ex_world (ex_store []) (ex_store [])"
          100 "''eyJ.access''"]
    refresh_missing_inputs
      [of "ex_request (Some ''eyJ.access'') None" ex_env
          "ex_world (ex_store []) ((ex_store [])\<lparr>get_fault := Some ''ECONNREFUSED''\<rparr>)"
          100 "''eyJ.access''"]
  by (simp add: ex_defs getKey_def)

text \<open>
  C7 as stated fails when the blacklist store cannot be read: the request with a token
  and without refresh cookie is answered 500, a server error, and the missing cookie is
  not reported.
\<close>

theorem refresh_missing_cookie_fault_counterexample:
  "present (req_token (ex_request (Some ''eyJ.access'') None)) = Some ''eyJ.access'' \<and>
   present (req_refresh_cookie (ex_request (Some ''eyJ.access'') None)) = None \<and>
   sent (refresh ex_env
       (ex_world (ex_store []) ((ex_store [])\<lparr>get_fault := Some ''ECONNREFUSED''\<rparr>)) 100
       (ex_request (Some ''eyJ.access'') None)) =
     Some \<lparr>res_status = 500, res_body = ErrorCode ''PROBLEM CHECKING BLACKLIST CACHE''\<rparr>"
  by (simp add: ex_defs handler_defs)

section \<open>Failed signature verification in \<^verbatim>\<open>/authorize\<close>\<close>

text \<open>
  C8.  On the fallback path of \<^verbatim>\<open>/authorize\<close> (the token is not blacklisted and not in
  the cache, and neither lookup fails), a verification error named \<open>TokenExpiredError\<close>
  is answered 401 \<open>TOKEN EXPIRED\<close> with no cookie operation, and every other
  verification error is answered 401 \<open>TOKEN INVALID\<close> with the refresh cookie cleared.
  Nothing is called after the verification and nothing is changed.
\<close>

theorem authorize_verification_failure:
  assumes "present (req_token req) = Some t"
    and "cacheError (getKey (tokenBlacklistCache w) now t) = None"
    and "cachedVal (getKey (tokenBlacklistCache w) now t) = None"
    and "cacheError (getKey (tokenCache w) now t) = None"
    and "cachedVal (getKey (tokenCache w) now t) = None"
    and "jwt_verify E t now = VerifyError name"
  shows "calls (authorize E w now req) = [BlacklistGet t, CacheGet t, JwtVerify t] \<and>
         final (authorize E w now req) = w \<and>
         (name = ''TokenExpiredError'' \<longrightarrow>
            sent (authorize E w now req) =
              Some \<lparr>res_status = 401, res_body = ErrorCode ''TOKEN EXPIRED''\<rparr> \<and>
            cookies (authorize E w now req) = []) \<and>
         (name \<noteq> ''TokenExpiredError'' \<longrightarrow>
            sent (authorize E w now req) =
              Some \<lparr>res_status = 401, res_body = ErrorCode ''TOKEN INVALID''\<rparr> \<and>
            cookies (authorize E w now req) = [ClearCookie])"
  using assms
  by (simp add: authorize_def authorize_verify_def Let_def respond_sel)

text \<open>The token \<open>eyJ.access\<close> at 4000, after its expiry, and a token that is no JWT.\<close>

theorem authorize_verification_failure_witness:
  "jwt_verify ex_env ''eyJ.access'' 4000 = VerifyError ''TokenExpiredError'' \<and>
   sent (authorize ex_env (ex_world (ex_store []) (ex_store [])) 4000
       (ex_request (Some ''eyJ.access'') (Some ''eyJ.refresh''))) =
     Some \<lparr>res_status = 401, res_body = ErrorCode ''TOKEN EXPIRED''\<rparr> \<and>
   cookies (authorize ex_env (ex_world (ex_store []) (ex_store [])) 4000
       (ex_request (Some ''eyJ.access'') (Some ''eyJ.refresh''))) = [] \<and>
   jwt_verify ex_env ''forged'' 100 = VerifyError ''JsonWebTokenError'' \<and>
   sent (authorize ex_env (ex_world (ex_store []) (ex_store [])) 100
       (ex_request (Some ''forged'') (Some ''eyJ.refresh''))) =
     Some \<lparr>res_status = 401, res_body = ErrorCode ''TOKEN INVALID''\<rparr> \<and>
   cookies (authorize ex_env (ex_world (ex_store []) (ex_store [])) 100
       (ex_request (Some ''forged'') (Some ''eyJ.refresh''))) = [ClearCookie]"
proof -
  have a: "present (req_token (ex_request (Some ''eyJ.access'') (Some ''eyJ.refresh''))) =
      Some ''eyJ.access''"
    "present (req_token (ex_request (Some ''forged'') (Some ''eyJ.refresh''))) = Some ''forged''"
    by (simp_all add: ex_defs)
  have b: "cacheError (getKey (tokenBlacklistCache (ex_world (ex_store []) (ex_store []))) n k) = None"
    "cachedVal (getKey (tokenBlacklistCache (ex_world (ex_store []) (ex_store []))) n k) = None"
    "cacheError (getKey (tokenCache (ex_world (ex_store []) (ex_store []))) n k) = None"
    "cachedVal (getKey (tokenCache (ex_world (ex_store []) (ex_store []))) n k) = None"
    for n k
    by (simp_all add: ex_defs getKey_def)
  have c: "jwt_verify ex_env ''eyJ.access'' 4000 = VerifyError ''TokenExpiredError''"
    "jwt_verify ex_env ''forged'' 100 = VerifyError ''JsonWebTokenError''"
    by (simp_all add: ex_defs)
  from authorize_verification_failure [OF a(1) b c(1)]
    authorize_verification_failure [OF a(2) b c(2)] c
  show ?thesis by simp
qed

text \<open>
  \<^verbatim>\<open>AuthorizeController.executeImpl\<close> makes the same distinction between its two replies;
  what they do to the cookie is decided in \<^verbatim>\<open>BaseController\<close>.
\<close>

lemma executeImpl_verification_failure:
  assumes "present (req_token req) = Some t"
    and "isBlacklisted C t = Inr False"
    and "getCachedPayload C t = Inr None"
    and "JWT_SECRET_KEY C = Some secret"
    and "verify C t now = VerifyError name"
  shows "reply (executeImpl C now req) =
           Some (if name = ''TokenExpiredError'' then ExpiredToken else InvalidToken)"
  using assms by (simp add: executeImpl_def)

section \<open>The guard of the \<^verbatim>\<open>User\<close> accessors\<close>

text \<open>
  C10.  A freshly constructed \<^verbatim>\<open>User\<close> does not exist, and whenever \<^verbatim>\<open>exists()\<close> is
  false each of \<^verbatim>\<open>hasPassword\<close>, \<^verbatim>\<open>confirmedEmail\<close>, \<^verbatim>\<open>getFields\<close> and \<^verbatim>\<open>initUserTokens\<close>
  throws \<open>NO USER INITIALIZED\<close> and returns nothing.
\<close>

theorem uninitialized_user_guarded:
  "\<not> exists User_new \<and>
   (\<not> exists u \<longrightarrow>
      hasPassword isPasswordValid u pw = Inl ''NO USER INITIALIZED'' \<and>
      confirmedEmail u = Inl ''NO USER INITIALIZED'' \<and>
      getFields u = Inl ''NO USER INITIALIZED'' \<and>
      initUserTokens createUserTokenData u = Inl ''NO USER INITIALIZED'')"
  by (simp add: exists_def User_new_def hasPassword_def confirmedEmail_def getFields_def
      initUserTokens_def)

theorem uninitialized_user_guarded_witness:
  "\<not> exists User_new \<and>
   hasPassword ex_hash_matches User_new ''p1'' = Inl ''NO USER INITIALIZED'' \<and>
   confirmedEmail User_new = Inl ''NO USER INITIALIZED'' \<and>
   getFields User_new = Inl ''NO USER INITIALIZED'' \<and>
   initUserTokens ex_create User_new = Inl ''NO USER INITIALIZED''"
  using uninitialized_user_guarded [of User_new ex_hash_matches "''p1''" ex_create]
  by simp

text \<open>Once a lookup has found a record, the accessors return from it.\<close>

lemma initialized_user_readable:
  "exists (initByEmail (\<lambda>e. Some ex_user) ''a@x.com'' User_new) \<and>
   getFields (initByEmail (\<lambda>e. Some ex_user) ''a@x.com'' User_new) = Inr (Some ex_user) \<and>
   hasPassword (\<lambda>h p. ex_hash_matches p h) (initByID (\<lambda>i. Some ex_user) ''u1'' User_new) ''p1'' =
     Inr True"
  by (simp add: exists_def initByEmail_def initByID_def getFields_def hasPassword_def
      User_new_def ex_user_def ex_hash_matches_def)

end
